theory Spec2Isabelle
  imports Main "HOL-Library.AList" "HOL-Library.Char_ord" "HOL-Library.List_Lexorder"
begin

section \<open>YCast: a shallow embedding of \<^verbatim>\<open>ycast.py\<close>\<close>

text \<open>
  The program answers vTuner requests of an amplifier from a tree of radio stations read
  from a YAML file. The embedding follows \<^verbatim>\<open>ycast.py\<close> function by function:
  \<^item> Python values of the station tree are the datatype \<open>pyval\<close>;
  \<^item> exceptions (\<^verbatim>\<open>sys.exit\<close> included, which raises \<^verbatim>\<open>SystemExit\<close>) are values of
    \<open>exn\<close>, and a call returns a \<open>result\<close>;
  \<^item> the attributes of \<^verbatim>\<open>StationSource\<close> that the code mutates, and the records written
    to the module's logger, are the record \<open>state\<close>, passed explicitly;
  \<^item> what the code reads from outside (the configuration file, the answer of the
    streaming host), and the built-in \<^verbatim>\<open>str.lower\<close>, are the record \<open>env\<close>.
\<close>

subsection \<open>Values, exceptions, state\<close>

text \<open>
  A loaded configuration is a nested mapping whose values are mappings or strings.
  \<^verbatim>\<open>set_station_by_id\<close> replaces every string by the tuple \<^verbatim>\<open>(station_id, data)\<close>.
  A \<^verbatim>\<open>dict\<close> keeps its insertion order, which the id assignment depends on, so it is an
  association list; its keys are strings. YAML sequences, numbers and nulls, and
  YAML anchors (which would share one mapping between two places), are outside the model.

  A string is the list of the bytes of its UTF-8 encoding. Comparing two such lists byte
  by byte orders them as Python orders the strings, by code point.
\<close>

datatype pyval =
    PDict "(string \<times> pyval) list"
  | PStr string
  | PTuple int string

datatype exn =
    KeyError
  | TypeError
  | AttributeError
  | ValueError
  | SystemExit int
  | OSError
  | YAMLError
  | HTTPError

datatype 'a result = Ok 'a | Raise exn

datatype pytext = Text string | PyNone | PyFalse

datatype xml = Element string pytext "xml list"

datatype log_entry =
    Info_received string
  | Error_config_not_found
  | Info_reply xml

type_synonym index = "int \<rightharpoonup> (string \<times> string)"

record state =
  stations :: pyval
  stations_by_id :: index
  log :: "log_entry list"

text \<open>\<^verbatim>\<open>StationSource.__init__\<close>: both dictionaries start empty.\<close>

definition init_state :: state where
  "init_state = \<lparr>stations = PDict [], stations_by_id = Map.empty, log = []\<rparr>"

text \<open>
  The outcome of \<^verbatim>\<open>open(self.source)\<close> followed by \<^verbatim>\<open>yaml.load\<close>: the file is missing,
  it cannot be opened for another reason, it is not YAML, or it holds a value.
\<close>

datatype load = FileNotFound | Unreadable | Unparsable | Loaded pyval

text \<open>
  The outcome of \<^verbatim>\<open>http.urlopen('GET', url, redirect=False)\<close> followed by
  \<^verbatim>\<open>resp.get_redirect_location()\<close>: the request raises, the response is a redirect with
  a location, a redirect without one (\<^verbatim>\<open>None\<close>), or no redirect (\<^verbatim>\<open>False\<close>).
\<close>

datatype http_reply = Request_failed | Location string | No_location | Not_redirect

text \<open>
  \<^verbatim>\<open>str.lower\<close> is a built-in that follows the case tables of Unicode. The model does not
  reproduce them: the function is the field \<open>str_lower\<close> of the environment, and
  nothing is assumed about it.
\<close>

record env =
  config :: load
  net :: "string \<Rightarrow> http_reply"
  str_lower :: "string \<Rightarrow> string"

subsection \<open>Constants\<close>

definition VTUNER_DNS :: string where
  "VTUNER_DNS = ''http://radioyamaha.vtuner.com''"

definition VTUNER_INITURL :: string where
  "VTUNER_INITURL = ''/setupapp/Yamaha/asp/BrowseXML/loginXML.asp''"

definition VTUNER_STATURL :: string where
  "VTUNER_STATURL = ''/setupapp/Yamaha/asp/BrowseXML/statxml.asp''"

definition YCAST_LOCATION :: string where
  "YCAST_LOCATION = ''ycast''"

definition DEFAULTSTATION :: string where
  "DEFAULTSTATION = ''Radio Paradise - auto:http://stream.radioparadise.com/mp3-192''"

subsection \<open>Python primitives the code uses\<close>

text \<open>\<^verbatim>\<open>s.startswith(p)\<close> and \<^verbatim>\<open>sub in s\<close> on strings.\<close>

fun startswith :: "string \<Rightarrow> string \<Rightarrow> bool" where
  "startswith s [] = True"
| "startswith [] (p # ps) = False"
| "startswith (c # s) (p # ps) = (c = p \<and> startswith s ps)"

fun contains :: "string \<Rightarrow> string \<Rightarrow> bool" where
  "contains sub [] = (sub = [])"
| "contains sub (c # s) = (startswith (c # s) sub \<or> contains sub s)"

text \<open>\<^verbatim>\<open>s.partition(sep)\<close> for a one-character separator.\<close>

fun partition_at :: "char \<Rightarrow> string \<Rightarrow> string \<times> string \<times> string" where
  "partition_at sep [] = ([], [], [])"
| "partition_at sep (c # s) =
     (if c = sep then ([], [sep], s)
      else (case partition_at sep s of (a, m, b) \<Rightarrow> (c # a, m, b)))"

text \<open>\<^verbatim>\<open>s.split('|')\<close>: always at least one segment.\<close>

fun split_on :: "char \<Rightarrow> string \<Rightarrow> string list" where
  "split_on sep [] = [[]]"
| "split_on sep (c # s) =
     (if c = sep then [] # split_on sep s
      else (case split_on sep s of [] \<Rightarrow> [[c]] | seg # segs \<Rightarrow> (c # seg) # segs))"

text \<open>
  What \<^verbatim>\<open>str.lower\<close> does to a string of ASCII characters. The example inputs, whose
  names are ASCII, are run with this function as \<open>str_lower\<close>.
\<close>

definition ascii_lower_char :: "char \<Rightarrow> char" where
  "ascii_lower_char c =
     (if CHR ''A'' \<le> c \<and> c \<le> CHR ''Z'' then char_of (of_char c + (32::nat)) else c)"

definition ascii_lower :: "string \<Rightarrow> string" where
  "ascii_lower s = map ascii_lower_char s"

text \<open>
  The characters of a string, each as a string of its own: a byte from 128 to 191
  continues the character before it.
\<close>

definition continuation :: "char \<Rightarrow> bool" where
  "continuation c \<longleftrightarrow> (128::nat) \<le> of_char c \<and> (of_char c :: nat) < 192"

fun characters :: "string \<Rightarrow> string list" where
  "characters [] = []"
| "characters (c # s) =
     (case characters s of
        [] \<Rightarrow> [[c]]
      | p # ps \<Rightarrow>
          (case p of
             [] \<Rightarrow> [c] # p # ps
           | b # bs \<Rightarrow> if continuation b then (c # p) # ps else [c] # p # ps))"

text \<open>\<^verbatim>\<open>str(n)\<close> for an integer.\<close>

definition digit_char :: "nat \<Rightarrow> char" where
  "digit_char d = ''0123456789'' ! d"

function digits :: "int \<Rightarrow> string" where
  "digits n =
     (if n < 10 then [digit_char (nat n)]
      else digits (n div 10) @ [digit_char (nat (n mod 10))])"
  by pat_completeness auto
termination
  by (relation "measure nat") auto

declare digits.simps [simp del]

definition str_int :: "int \<Rightarrow> string" where
  "str_int i = (if i < 0 then CHR ''-'' # digits (- i) else digits i)"

text \<open>
  \<^verbatim>\<open>urllib.parse.quote\<close> with its default \<^verbatim>\<open>safe='/'\<close>, on the bytes of the string: letters,
  digits and \<^verbatim>\<open>_.-~/\<close> stay, every other byte becomes \<^verbatim>\<open>%XX\<close>.
\<close>

definition hex_char :: "nat \<Rightarrow> char" where
  "hex_char d = ''0123456789ABCDEF'' ! d"

definition unreserved :: "char \<Rightarrow> bool" where
  "unreserved c \<longleftrightarrow>
     (CHR ''A'' \<le> c \<and> c \<le> CHR ''Z'') \<or> (CHR ''a'' \<le> c \<and> c \<le> CHR ''z'') \<or>
     (CHR ''0'' \<le> c \<and> c \<le> CHR ''9'') \<or> c \<in> set ''_.-~/''"

definition quote_char :: "char \<Rightarrow> string" where
  "quote_char c =
     (if unreserved c then [c]
      else [CHR ''%'', hex_char ((of_char c :: nat) div 16), hex_char ((of_char c :: nat) mod 16)])"

definition quote :: "string \<Rightarrow> string" where
  "quote s = concat (map quote_char s)"

text \<open>
  \<^verbatim>\<open>xs[i:j]\<close>: a negative bound counts from the end, and both bounds are clamped to the
  list.
\<close>

definition slice_bound :: "nat \<Rightarrow> int \<Rightarrow> nat" where
  "slice_bound n k = (if k < 0 then nat (max (k + int n) 0) else min (nat k) n)"

definition py_slice :: "'a list \<Rightarrow> int \<Rightarrow> int \<Rightarrow> 'a list" where
  "py_slice xs i j =
     take (slice_bound (length xs) j - slice_bound (length xs) i)
          (drop (slice_bound (length xs) i) xs)"

text \<open>
  \<^verbatim>\<open>sorted(v, key=str.lower)\<close>: iterating a dict gives its keys, iterating a string its
  characters; \<^verbatim>\<open>str.lower\<close> applied to the integer of a tuple raises \<^verbatim>\<open>TypeError\<close>. The
  sort is stable, as \<open>sort_key\<close> is.
\<close>

fun sorted_lower :: "(string \<Rightarrow> string) \<Rightarrow> pyval \<Rightarrow> string list result" where
  "sorted_lower lw (PDict d) = Ok (sort_key lw (map fst d))"
| "sorted_lower lw (PStr s) = Ok (sort_key lw (characters s))"
| "sorted_lower lw (PTuple i u) = Raise TypeError"

text \<open>\<^verbatim>\<open>v[key]\<close> with a string key, and \<^verbatim>\<open>len(v)\<close>.\<close>

fun getitem :: "pyval \<Rightarrow> string \<Rightarrow> pyval result" where
  "getitem (PDict d) key = (case map_of d key of None \<Rightarrow> Raise KeyError | Some v \<Rightarrow> Ok v)"
| "getitem (PStr s) key = Raise TypeError"
| "getitem (PTuple i u) key = Raise TypeError"

fun len :: "pyval \<Rightarrow> nat" where
  "len (PDict d) = length d"
| "len (PStr s) = length (characters s)"
| "len (PTuple i u) = 2"

subsection \<open>\<^verbatim>\<open>filter_url\<close>\<close>

definition filter_url :: "(string \<Rightarrow> http_reply) \<Rightarrow> string \<Rightarrow> pytext result" where
  "filter_url nt url =
     (if contains ''streamtheworld.com/'' url then
        (case nt url of
           Request_failed \<Rightarrow> Raise HTTPError
         | Location newurl \<Rightarrow> Ok (Text newurl)
         | No_location \<Rightarrow> Ok PyNone
         | Not_redirect \<Rightarrow> Ok PyFalse)
      else Ok (Text url))"

subsection \<open>\<^verbatim>\<open>StationSource\<close>\<close>

text \<open>
  \<^verbatim>\<open>walktree\<close>: the loop over \<^verbatim>\<open>directory.items()\<close>. The first argument is what is left of
  the items, the second the directory being updated by key. A nested dict is walked in
  place, so its updated value is what \<^verbatim>\<open>directory[key]\<close> holds afterwards.
\<close>

fun walk_items ::
  "(string \<times> pyval) list \<Rightarrow> (string \<times> pyval) list \<Rightarrow> int \<Rightarrow> index \<Rightarrow>
     (string \<times> pyval) list \<times> int \<times> index" where
  "walk_items [] directory station_id by_id = (directory, station_id, by_id)"
| "walk_items ((key, PDict sub) # rest) directory station_id by_id =
     (case walk_items sub sub station_id by_id of
        (sub', station_id', by_id') \<Rightarrow>
          walk_items rest (AList.update key (PDict sub') directory) station_id' by_id')"
| "walk_items ((key, PStr data) # rest) directory station_id by_id =
     walk_items rest (AList.update key (PTuple station_id data) directory)
       (station_id + 1) (by_id(station_id \<mapsto> (key, data)))"
| "walk_items ((key, PTuple i u) # rest) directory station_id by_id =
     walk_items rest directory station_id by_id"

definition walktree ::
  "(string \<times> pyval) list \<Rightarrow> int \<Rightarrow> index \<Rightarrow> (string \<times> pyval) list \<times> int \<times> index" where
  "walktree directory station_id by_id = walk_items directory directory station_id by_id"

text \<open>
  \<^verbatim>\<open>set_station_by_id\<close> calls \<^verbatim>\<open>walktree(self.stations)\<close>, with the default
  \<^verbatim>\<open>station_id=1\<close>; \<^verbatim>\<open>directory.items()\<close> raises \<^verbatim>\<open>AttributeError\<close> on anything but a dict.
\<close>

definition set_station_by_id :: "state \<Rightarrow> unit result \<times> state" where
  "set_station_by_id s =
     (case stations s of
        PDict d \<Rightarrow>
          (case walktree d 1 (stations_by_id s) of
             (d', n, by_id') \<Rightarrow> (Ok (), s\<lparr>stations := PDict d', stations_by_id := by_id'\<rparr>))
      | PStr x \<Rightarrow> (Raise AttributeError, s)
      | PTuple i u \<Rightarrow> (Raise AttributeError, s))"

definition get_stations :: "load \<Rightarrow> state \<Rightarrow> pyval result \<times> state" where
  "get_stations ld s =
     (case ld of
        FileNotFound \<Rightarrow> (Raise (SystemExit 1), s\<lparr>log := log s @ [Error_config_not_found]\<rparr>)
      | Unreadable \<Rightarrow> (Raise OSError, s)
      | Unparsable \<Rightarrow> (Raise YAMLError, s)
      | Loaded v \<Rightarrow>
          (case set_station_by_id (s\<lparr>stations := v\<rparr>) of
             (Raise e, s') \<Rightarrow> (Raise e, s')
           | (Ok u, s') \<Rightarrow> (Ok (stations s'), s')))"

text \<open>\<^verbatim>\<open>by_hierarchy\<close> and \<^verbatim>\<open>by_id\<close>.\<close>

fun descend :: "pyval \<Rightarrow> string list \<Rightarrow> pyval result" where
  "descend current_dir [] = Ok current_dir"
| "descend current_dir (category # hierarchy) =
     (case getitem current_dir category of
        Raise e \<Rightarrow> Raise e
      | Ok v \<Rightarrow> descend v hierarchy)"

definition by_hierarchy :: "state \<Rightarrow> string \<Rightarrow> pyval result" where
  "by_hierarchy s long_category = descend (stations s) (split_on CHR ''|'' long_category)"

definition by_id :: "state \<Rightarrow> int \<Rightarrow> (string \<times> string) result" where
  "by_id s station_id =
     (case stations_by_id s station_id of None \<Rightarrow> Raise KeyError | Some st \<Rightarrow> Ok st)"

subsection \<open>\<^verbatim>\<open>YCastHandler\<close>\<close>

text \<open>
  A request as \<^verbatim>\<open>do_GET\<close> sees it: \<^verbatim>\<open>self.path\<close>, the path component of
  \<^verbatim>\<open>urlsplit(self.path)\<close>, and what the query gives for the five parameters the code
  reads. \<open>qint\<close> is the outcome of \<^verbatim>\<open>int(url_query_split[k][0])\<close>: the key is absent
  (\<^verbatim>\<open>KeyError\<close>), its value is not an integer literal (\<^verbatim>\<open>ValueError\<close>), or an integer.
  \<open>category_param\<close> is \<^verbatim>\<open>parse.unquote(url_query_split['category'][0])\<close> when the key is
  there.
\<close>

datatype qint = Absent | NotInt | IntVal int

record request =
  path :: string
  url_path :: string
  has_token :: bool
  start_param :: qint
  howmany_param :: qint
  id_param :: qint
  category_param :: "string option"

text \<open>
  What the handler sends: \<^verbatim>\<open>write_message\<close> (status 200, the XML prolog or not, the
  document) or \<^verbatim>\<open>send_error\<close>. An exception that leaves \<^verbatim>\<open>do_GET\<close> sends nothing.
  \<^verbatim>\<open>reply_with_station_list\<close> is never called and is left out; so are the lines that
  \<^verbatim>\<open>BaseHTTPRequestHandler\<close> itself writes to standard error.
\<close>

datatype response = Reply bool xml | Send_error nat

fun get_int :: "qint \<Rightarrow> int result" where
  "get_int Absent = Raise KeyError"
| "get_int NotInt = Raise ValueError"
| "get_int (IntVal n) = Ok n"

definition create_root :: xml where
  "create_root = Element ''ListOfItems'' PyNone []"

fun SubElement :: "xml \<Rightarrow> xml \<Rightarrow> xml" where
  "SubElement (Element tag txt children) child = Element tag txt (children @ [child])"

definition leaf :: "string \<Rightarrow> string \<Rightarrow> xml" where
  "leaf tag txt = Element tag (Text txt) []"

definition dir_item :: "string \<Rightarrow> string \<Rightarrow> string \<Rightarrow> xml" where
  "dir_item name dest dircount =
     Element ''Item'' PyNone
       [leaf ''ItemType'' ''Dir'', leaf ''Title'' name, leaf ''UrlDir'' dest,
        leaf ''DirCount'' dircount]"

definition add_dir :: "xml \<Rightarrow> string \<Rightarrow> string \<Rightarrow> string \<Rightarrow> xml" where
  "add_dir root name dest dircount = SubElement root (dir_item name dest dircount)"

definition station_item :: "string \<Rightarrow> pytext \<Rightarrow> int \<Rightarrow> xml" where
  "station_item name url station_id =
     Element ''Item'' PyNone
       [leaf ''ItemType'' ''Station'', leaf ''StationName'' name,
        leaf ''StationId'' (str_int station_id), Element ''StationUrl'' url []]"

definition add_station ::
  "(string \<Rightarrow> http_reply) \<Rightarrow> xml \<Rightarrow> string \<Rightarrow> string \<Rightarrow> int \<Rightarrow> xml result" where
  "add_station nt root name url station_id =
     (case filter_url nt url of
        Raise e \<Rightarrow> Raise e
      | Ok direct \<Rightarrow> Ok (SubElement root (station_item name direct station_id)))"

definition write_message :: "xml \<Rightarrow> bool \<Rightarrow> state \<Rightarrow> response result \<times> state" where
  "write_message doc add_xml_header s =
     (Ok (Reply add_xml_header doc), s\<lparr>log := log s @ [Info_reply doc]\<rparr>)"

definition send_error :: "nat \<Rightarrow> state \<Rightarrow> response result \<times> state" where
  "send_error code s = (Ok (Send_error code), s)"

definition category_url :: "string \<Rightarrow> string" where
  "category_url category =
     VTUNER_DNS @ ''/'' @ YCAST_LOCATION @ ''?category='' @ quote category"

text \<open>The loop of \<^verbatim>\<open>reply_with_dir\<close> over the slice of the sorted keys.\<close>

fun dir_loop :: "pyval \<Rightarrow> string list \<Rightarrow> xml \<Rightarrow> xml result" where
  "dir_loop stns [] doc = Ok doc"
| "dir_loop stns (category # rest) doc =
     (case getitem stns category of
        Raise e \<Rightarrow> Raise e
      | Ok v \<Rightarrow>
          dir_loop stns rest
            (add_dir doc category (category_url category) (str_int (int (len v)))))"

definition reply_with_dir ::
  "(string \<Rightarrow> string) \<Rightarrow> pyval \<Rightarrow> int \<Rightarrow> int \<Rightarrow> state \<Rightarrow>
     response result \<times> state" where
  "reply_with_dir lw stns start max_size s =
     (case sorted_lower lw stns of
        Raise e \<Rightarrow> (Raise e, s)
      | Ok names \<Rightarrow>
          (case dir_loop stns (py_slice names start (start + max_size))
                  (SubElement create_root (leaf ''DirCount'' ''9'')) of
             Raise e \<Rightarrow> (Raise e, s)
           | Ok doc \<Rightarrow> write_message doc True s))"

text \<open>
  The loop of \<^verbatim>\<open>reply_with_mixed_list\<close>: a dict child becomes a directory item, a tuple
  child a station item, and a child that is neither adds nothing.
\<close>

fun mixed_loop ::
  "(string \<Rightarrow> http_reply) \<Rightarrow> pyval \<Rightarrow> string \<Rightarrow> string list \<Rightarrow> xml \<Rightarrow> xml result" where
  "mixed_loop nt station_list hierarchy [] doc = Ok doc"
| "mixed_loop nt station_list hierarchy (item # rest) doc =
     (case getitem station_list item of
        Raise e \<Rightarrow> Raise e
      | Ok (PDict d) \<Rightarrow>
          mixed_loop nt station_list hierarchy rest
            (add_dir doc item (category_url (hierarchy @ ''|'' @ item))
               (str_int (int (len (PDict d)))))
      | Ok (PTuple station_id station_url) \<Rightarrow>
          (case add_station nt doc item station_url station_id of
             Raise e \<Rightarrow> Raise e
           | Ok doc' \<Rightarrow> mixed_loop nt station_list hierarchy rest doc')
      | Ok (PStr x) \<Rightarrow> mixed_loop nt station_list hierarchy rest doc)"

definition reply_with_mixed_list ::
  "(string \<Rightarrow> string) \<Rightarrow> (string \<Rightarrow> http_reply) \<Rightarrow> string \<Rightarrow> int \<Rightarrow> int \<Rightarrow> state \<Rightarrow>
     response result \<times> state" where
  "reply_with_mixed_list lw nt hierarchy start max_size s =
     (case by_hierarchy s hierarchy of
        Raise e \<Rightarrow> (Raise e, s)
      | Ok station_list \<Rightarrow>
          (case sorted_lower lw station_list of
             Raise e \<Rightarrow> (Raise e, s)
           | Ok names \<Rightarrow>
               (case mixed_loop nt station_list hierarchy
                       (py_slice names start (start + max_size)) create_root of
                  Raise e \<Rightarrow> (Raise e, s)
                | Ok doc \<Rightarrow> write_message doc True s)))"

text \<open>The four branches of \<^verbatim>\<open>do_GET\<close>, after the catalog has been read.\<close>

definition init_request ::
  "(string \<Rightarrow> string) \<Rightarrow> request \<Rightarrow> pyval \<Rightarrow> state \<Rightarrow> response result \<times> state" where
  "init_request lw rq stns s =
     (if has_token rq then
        write_message (Element ''EncryptedToken'' (Text ''85d6fa40a9dcc906'') []) False s
      else
        (case get_int (start_param rq) of
           Raise e \<Rightarrow> (Raise e, s)
         | Ok start \<Rightarrow>
             (case get_int (howmany_param rq) of
                Raise e \<Rightarrow> (Raise e, s)
              | Ok howmany \<Rightarrow> reply_with_dir lw stns (start - 1) howmany s)))"

definition station_request ::
  "(string \<Rightarrow> http_reply) \<Rightarrow> request \<Rightarrow> state \<Rightarrow> response result \<times> state" where
  "station_request nt rq s =
     (case get_int (id_param rq) of
        Raise e \<Rightarrow> (Raise e, s)
      | Ok station_id \<Rightarrow>
          (case (case by_id s station_id of
                   Ok (station_name, station_url) \<Rightarrow>
                     Ok (station_id, station_name, station_url)
                 | Raise e \<Rightarrow>
                     (if e = KeyError then
                        (case partition_at CHR ''&'' DEFAULTSTATION of
                           (station_name, sep, station_url) \<Rightarrow>
                             Ok (999999, station_name, station_url))
                      else Raise e)) of
             Raise e \<Rightarrow> (Raise e, s)
           | Ok (station_id', station_name, station_url) \<Rightarrow>
               (case add_station nt create_root station_name station_url station_id' of
                  Raise e \<Rightarrow> (Raise e, s)
                | Ok doc \<Rightarrow> write_message doc True s)))"

definition page_window :: "request \<Rightarrow> (int \<times> int) result" where
  "page_window rq =
     (case get_int (start_param rq) of
        Raise e \<Rightarrow> (if e = KeyError then Ok (1, 8) else Raise e)
      | Ok start \<Rightarrow>
          (case get_int (howmany_param rq) of
             Raise e \<Rightarrow> (if e = KeyError then Ok (1, 8) else Raise e)
           | Ok howmany \<Rightarrow> Ok (start, howmany)))"

definition category_request ::
  "(string \<Rightarrow> string) \<Rightarrow> (string \<Rightarrow> http_reply) \<Rightarrow> request \<Rightarrow> state \<Rightarrow>
     response result \<times> state" where
  "category_request lw nt rq s =
     (case category_param rq of
        None \<Rightarrow> (Raise KeyError, s)
      | Some hierarchy \<Rightarrow>
          (case page_window rq of
             Raise e \<Rightarrow> (Raise e, s)
           | Ok (start, howmany) \<Rightarrow>
               (case reply_with_mixed_list lw nt hierarchy (start - 1) howmany s of
                  (Raise e, s') \<Rightarrow> (if e = KeyError then send_error 404 s' else (Raise e, s'))
                | (Ok r, s') \<Rightarrow> (Ok r, s'))))"

definition do_GET :: "env \<Rightarrow> request \<Rightarrow> state \<Rightarrow> response result \<times> state" where
  "do_GET ev rq s0 =
     (case get_stations (config ev) (s0\<lparr>log := log s0 @ [Info_received (path rq)]\<rparr>) of
        (Raise e, s) \<Rightarrow> (Raise e, s)
      | (Ok stns, s) \<Rightarrow>
          (if url_path rq = VTUNER_INITURL then init_request (str_lower ev) rq stns s
           else if startswith (path rq) VTUNER_STATURL then station_request (net ev) rq s
           else if path rq = ''/'' \<or> path rq = ''/'' @ YCAST_LOCATION
                   \<or> path rq = ''/'' @ YCAST_LOCATION @ ''/''
                   \<or> startswith (path rq) VTUNER_INITURL
             then reply_with_dir (str_lower ev) stns 0 8 s
           else if startswith (path rq) (''/'' @ YCAST_LOCATION @ ''?'')
             then category_request (str_lower ev) (net ev) rq s
           else send_error 404 s))"

subsection \<open>Notions the properties are stated with\<close>

text \<open>
  A configuration as \<^verbatim>\<open>yaml.load\<close> returns it: the keys of a dict are distinct at every level,
  and there are no tuples yet.
\<close>

fun is_config :: "(string \<times> pyval) list \<Rightarrow> bool" where
  "is_config [] = True"
| "is_config ((key, PDict sub) # rest) =
     (key \<notin> set (map fst rest) \<and> is_config sub \<and> is_config rest)"
| "is_config ((key, PStr data) # rest) = (key \<notin> set (map fst rest) \<and> is_config rest)"
| "is_config ((key, PTuple i u) # rest) = False"

text \<open>
  The stations of a configuration (its string values, with their keys) in pre-order
  document order, and the stations of a built tree (its tuples) in the same order.
\<close>

fun config_stations :: "(string \<times> pyval) list \<Rightarrow> (string \<times> string) list" where
  "config_stations [] = []"
| "config_stations ((key, PDict sub) # rest) = config_stations sub @ config_stations rest"
| "config_stations ((key, PStr data) # rest) = (key, data) # config_stations rest"
| "config_stations ((key, PTuple i u) # rest) = config_stations rest"

fun catalog_stations :: "(string \<times> pyval) list \<Rightarrow> (int \<times> string \<times> string) list" where
  "catalog_stations [] = []"
| "catalog_stations ((key, PDict sub) # rest) = catalog_stations sub @ catalog_stations rest"
| "catalog_stations ((key, PStr data) # rest) = catalog_stations rest"
| "catalog_stations ((key, PTuple i u) # rest) = (i, key, u) # catalog_stations rest"

definition assigned :: "state \<Rightarrow> (int \<times> string \<times> string) list" where
  "assigned s = (case stations s of PDict d \<Rightarrow> catalog_stations d | _ \<Rightarrow> [])"

text \<open>Numbering a list from \<open>n\<close> on, and storing numbered stations in the id index.\<close>

fun number_from :: "int \<Rightarrow> 'a list \<Rightarrow> (int \<times> 'a) list" where
  "number_from n [] = []"
| "number_from n (x # xs) = (n, x) # number_from (n + 1) xs"

definition record_all :: "(int \<times> string \<times> string) list \<Rightarrow> index \<Rightarrow> index" where
  "record_all ps idx = fold (\<lambda>(i, st) m. m(i \<mapsto> st)) ps idx"

text \<open>
  The tree that the walk leaves behind, written by position: the \<open>n\<close>-th string met
  becomes a tuple with the \<open>n\<close>-th id.
\<close>

fun relabel :: "(string \<times> pyval) list \<Rightarrow> int \<Rightarrow> (string \<times> pyval) list" where
  "relabel [] n = []"
| "relabel ((key, PDict sub) # rest) n =
     (key, PDict (relabel sub n)) # relabel rest (n + int (length (config_stations sub)))"
| "relabel ((key, PStr data) # rest) n = (key, PTuple n data) # relabel rest (n + 1)"
| "relabel ((key, PTuple i u) # rest) n = (key, PTuple i u) # relabel rest n"

text \<open>The state after the catalog has been built from a loaded mapping.\<close>

definition build :: "(string \<times> pyval) list \<Rightarrow> state \<Rightarrow> state" where
  "build cfg s = snd (get_stations (Loaded (PDict cfg)) s)"


text \<open>The items of a reply and the names they show.\<close>

fun children :: "xml \<Rightarrow> xml list" where
  "children (Element tag txt cs) = cs"

fun tag_of :: "xml \<Rightarrow> string" where
  "tag_of (Element tag txt cs) = tag"

definition items_of :: "xml \<Rightarrow> xml list" where
  "items_of doc = filter (\<lambda>e. tag_of e = ''Item'') (children doc)"

fun item_title :: "xml \<Rightarrow> string" where
  "item_title (Element tag txt (kind # Element tag' (Text name) cs # others)) = name"
| "item_title e = []"

fun rendered :: "response result \<Rightarrow> string list option" where
  "rendered (Ok (Reply prolog doc)) = Some (map item_title (items_of doc))"
| "rendered (Ok (Send_error code)) = None"
| "rendered (Raise e) = None"

text \<open>
  The page the specification describes: names sorted case-insensitively (by their
  lower-case form \<open>lw\<close>, names with equal forms staying in their order), then the
  positions \<open>start - 1\<close> up to \<open>start - 1 + howmany\<close>, \<open>start\<close> counting from 1.
\<close>

definition page :: "(string \<Rightarrow> string) \<Rightarrow> string list \<Rightarrow> int \<Rightarrow> int \<Rightarrow> string list" where
  "page lw names start howmany =
     take (nat howmany) (drop (nat (start - 1)) (sort_key lw names))"

text \<open>The three kinds of path that \<^verbatim>\<open>do_GET\<close> tells apart after the init path.\<close>

definition alias_path :: "string \<Rightarrow> bool" where
  "alias_path p \<longleftrightarrow> p = ''/'' \<or> p = ''/ycast'' \<or> p = ''/ycast/''"

text \<open>The part of the state that is the catalog: the tree and the id index.\<close>

definition catalog :: "state \<Rightarrow> pyval \<times> index" where
  "catalog s = (stations s, stations_by_id s)"

text \<open>The requests that reach the second and the fourth branch of \<^verbatim>\<open>do_GET\<close>.\<close>

definition station_detail :: "request \<Rightarrow> bool" where
  "station_detail rq \<longleftrightarrow>
     url_path rq \<noteq> VTUNER_INITURL \<and> startswith (path rq) VTUNER_STATURL"

text \<open>
  A root listing with both page parameters (first branch), and an alias root listing
  (third branch, reached through one of the three alias paths).
\<close>

definition root_listing :: "request \<Rightarrow> int \<Rightarrow> int \<Rightarrow> bool" where
  "root_listing rq a b \<longleftrightarrow>
     url_path rq = VTUNER_INITURL \<and> \<not> has_token rq \<and>
     start_param rq = IntVal a \<and> howmany_param rq = IntVal b"

definition alias_listing :: "request \<Rightarrow> bool" where
  "alias_listing rq \<longleftrightarrow>
     url_path rq \<noteq> VTUNER_INITURL \<and> \<not> startswith (path rq) VTUNER_STATURL \<and>
     alias_path (path rq)"


subsection \<open>Example inputs\<close>

text \<open>The catalog of the specification's end-to-end example, with a station at the top.\<close>

definition example_config :: "(string \<times> pyval) list" where
  "example_config =
     [(''News'', PDict [(''BBC'', PStr ''BBC - auto:http://bbc/stream'')]),
      (''Music'', PDict [(''Jazz FM'', PStr ''Jazz - auto:http://jazz/stream'')]),
      (''Paradise'', PStr ''http://stream.radioparadise.com/mp3-192'')]"

definition example_env :: env where
  "example_env =
     \<lparr>config = Loaded (PDict example_config), net = (\<lambda>url. Not_redirect),
      str_lower = ascii_lower\<rparr>"

text \<open>The example after the file has been edited down to its first station.\<close>

definition shrunk_env :: env where
  "shrunk_env =
     \<lparr>config = Loaded (PDict [(''News'', PDict [(''BBC'', PStr ''BBC - auto:http://bbc/stream'')])]),
      net = (\<lambda>url. Not_redirect), str_lower = ascii_lower\<rparr>"




text \<open>
  A request without a query, and requests of each operation: the query string as sent,
  and what the code reads from it.
\<close>

definition no_query :: "string \<Rightarrow> request" where
  "no_query p =
     \<lparr>path = p, url_path = p, has_token = False, start_param = Absent,
      howmany_param = Absent, id_param = Absent, category_param = None\<rparr>"


definition station_query :: "string \<Rightarrow> qint \<Rightarrow> request" where
  "station_query q i =
     \<lparr>path = VTUNER_STATURL @ ''?'' @ q, url_path = VTUNER_STATURL, has_token = False,
      start_param = Absent, howmany_param = Absent, id_param = i, category_param = None\<rparr>"

definition category_query :: "string \<Rightarrow> string option \<Rightarrow> qint \<Rightarrow> qint \<Rightarrow> request" where
  "category_query q category start howmany =
     \<lparr>path = ''/ycast?'' @ q, url_path = ''/ycast'', has_token = False,
      start_param = start, howmany_param = howmany, id_param = Absent,
      category_param = category\<rparr>"

section \<open>Properties\<close>

subsection \<open>Requests that miss a required parameter\<close>

text \<open>
  C4. A station-detail request without \<^verbatim>\<open>id\<close>, or a category-listing request without
  \<^verbatim>\<open>category\<close>, should degrade to a not-found response. In the code both lookups stand
  before the \<^verbatim>\<open>try\<close> blocks of their branch: the \<^verbatim>\<open>KeyError\<close> leaves \<^verbatim>\<open>do_GET\<close> and no
  response is written.
\<close>

theorem missing_parameter_raises:
  "fst (do_GET example_env (no_query VTUNER_STATURL) init_state) = Raise KeyError \<and>
   fst (do_GET example_env (category_query ''start=1&howmany=8'' None (IntVal 1) (IntVal 8)) init_state)
     = Raise KeyError"
  by code_simp

subsection \<open>Category paths that do not resolve\<close>

text \<open>
  C5. A category path that fails to resolve should give a not-found response. A segment
  that is absent does (\<^verbatim>\<open>KeyError\<close> is caught and answered with 404); a path that ends at
  a station, or goes on below one, raises \<^verbatim>\<open>TypeError\<close>, which nothing catches.
\<close>

theorem station_in_path_raises:
  "fst (do_GET example_env (category_query ''category=News%7CBBC'' (Some ''News|BBC'') Absent Absent) init_state)
     = Raise TypeError \<and>
   fst (do_GET example_env (category_query ''category=News%7CBBC%7Cx'' (Some ''News|BBC|x'') Absent Absent) init_state)
     = Raise TypeError \<and>
   fst (do_GET example_env (category_query ''category=News%7CABC'' (Some ''News|ABC'') Absent Absent) init_state)
     = Ok (Send_error 404)"
  by code_simp

subsection \<open>Station ids\<close>

text \<open>
  The walk updates the directory by key. On a configuration, where keys are distinct, the
  update lands on the entry being visited, so the walk is the positional \<open>relabel\<close>.
\<close>

lemma update_at_key:
  "key \<notin> set (map fst pre) \<Longrightarrow>
   AList.update key v (pre @ (key, w) # rest) = pre @ (key, v) # rest"
  by (induction pre) auto

lemma number_from_append:
  "number_from n (xs @ ys) = number_from n xs @ number_from (n + int (length xs)) ys"
  by (induction xs arbitrary: n) (auto simp: algebra_simps)

lemma record_all_append: "record_all (ps @ qs) m = record_all qs (record_all ps m)"
  by (simp add: record_all_def)

lemma walk_items_positional:
  "is_config items \<Longrightarrow> set (map fst pre) \<inter> set (map fst items) = {} \<Longrightarrow>
   walk_items items (pre @ items) n idx =
     (pre @ relabel items n, n + int (length (config_stations items)),
      record_all (number_from n (config_stations items)) idx)"
proof (induction items "pre @ items" n idx arbitrary: pre rule: walk_items.induct)
  case (1 station_id idx)
  then show ?case by (simp add: record_all_def)
next
  case (2 key sub rest station_id idx)
  have sub: "walk_items sub sub station_id idx =
     (relabel sub station_id, station_id + int (length (config_stations sub)),
      record_all (number_from station_id (config_stations sub)) idx)"
    using "2.hyps"(1)[of "[]"] "2.prems" by simp
  have k: "key \<notin> set (map fst pre)" using "2.prems" by auto
  have upd: "AList.update key (PDict (relabel sub station_id)) (pre @ (key, PDict sub) # rest)
     = (pre @ [(key, PDict (relabel sub station_id))]) @ rest"
    using update_at_key[OF k] by simp
  have disj: "set (map fst (pre @ [(key, PDict (relabel sub station_id))])) \<inter> set (map fst rest) = {}"
    using "2.prems" by auto
  have rest: "walk_items rest ((pre @ [(key, PDict (relabel sub station_id))]) @ rest)
      (station_id + int (length (config_stations sub)))
      (record_all (number_from station_id (config_stations sub)) idx) =
     ((pre @ [(key, PDict (relabel sub station_id))]) @ relabel rest (station_id + int (length (config_stations sub))),
      (station_id + int (length (config_stations sub))) + int (length (config_stations rest)),
      record_all (number_from (station_id + int (length (config_stations sub))) (config_stations rest))
        (record_all (number_from station_id (config_stations sub)) idx))"
    using "2.hyps"(2)[OF sub[symmetric] refl upd] "2.prems" disj
    by simp
  show ?case
    using sub upd rest by (simp add: number_from_append record_all_append)
next
  case (3 key data rest station_id idx)
  have k: "key \<notin> set (map fst pre)" using "3.prems" by auto
  have upd: "AList.update key (PTuple station_id data) (pre @ (key, PStr data) # rest)
     = (pre @ [(key, PTuple station_id data)]) @ rest"
    using update_at_key[OF k] by simp
  have disj: "set (map fst (pre @ [(key, PTuple station_id data)])) \<inter> set (map fst rest) = {}"
    using "3.prems" by auto
  have rest: "walk_items rest ((pre @ [(key, PTuple station_id data)]) @ rest)
      (station_id + 1) (idx(station_id \<mapsto> (key, data))) =
     ((pre @ [(key, PTuple station_id data)]) @ relabel rest (station_id + 1),
      (station_id + 1) + int (length (config_stations rest)),
      record_all (number_from (station_id + 1) (config_stations rest))
        (idx(station_id \<mapsto> (key, data))))"
    using "3.hyps"[OF upd] "3.prems" disj by simp
  show ?case
    using upd rest by (simp add: record_all_def)
next
  case (4 key i u rest station_id idx)
  then show ?case by simp
qed

lemma walktree_positional:
  "is_config cfg \<Longrightarrow>
   walktree cfg n idx =
     (relabel cfg n, n + int (length (config_stations cfg)),
      record_all (number_from n (config_stations cfg)) idx)"
  using walk_items_positional[of cfg "[]" n idx] by (simp add: walktree_def)

lemma get_stations_config:
  "is_config cfg \<Longrightarrow>
   get_stations (Loaded (PDict cfg)) s =
     (Ok (PDict (relabel cfg 1)),
      s\<lparr>stations := PDict (relabel cfg 1),
        stations_by_id := record_all (number_from 1 (config_stations cfg)) (stations_by_id s)\<rparr>)"
  by (simp add: get_stations_def set_station_by_id_def walktree_positional)

lemma catalog_stations_append:
  "catalog_stations (xs @ ys) = catalog_stations xs @ catalog_stations ys"
  by (induction xs rule: catalog_stations.induct) auto

lemma catalog_stations_relabel:
  "is_config items \<Longrightarrow> catalog_stations (relabel items n) = number_from n (config_stations items)"
  by (induction items n rule: relabel.induct) (auto simp: number_from_append)

lemma map_fst_number_from: "map fst (number_from n xs) = [n..n + int (length xs) - 1]"
proof (induction xs arbitrary: n)
  case Nil
  then show ?case by simp
next
  case (Cons x xs)
  have "[n..n + int (length (x # xs)) - 1] = n # [n + 1..n + 1 + int (length xs) - 1]"
    by (subst upto_rec1) (auto simp: algebra_simps)
  then show ?case using Cons by simp
qed

lemma map_snd_number_from: "map snd (number_from n xs) = xs"
  by (induction xs arbitrary: n) auto

lemma record_all_lookup:
  "record_all (number_from n xs) idx i =
     (if n \<le> i \<and> i < n + int (length xs) then Some (xs ! nat (i - n)) else idx i)"
proof (induction xs arbitrary: n idx)
  case Nil
  then show ?case by (auto simp: record_all_def)
next
  case (Cons x xs)
  have step: "record_all (number_from n (x # xs)) idx
      = record_all (number_from (n + 1) xs) (idx(n \<mapsto> x))"
    by (simp add: record_all_def)
  show ?case
  proof (cases "n + 1 \<le> i \<and> i < n + 1 + int (length xs)")
    case True
    then have "nat (i - n) = Suc (nat (i - (n + 1)))" by linarith
    with True show ?thesis unfolding step Cons.IH by auto
  next
    case False
    then show ?thesis unfolding step Cons.IH by auto
  qed
qed

lemma record_all_twice:
  "record_all (number_from n xs) (record_all (number_from n xs) idx)
     = record_all (number_from n xs) idx"
  by (rule ext) (simp add: record_all_lookup)

lemma station_ids_facts:
  assumes "is_config cfg"
  shows "stations (build cfg s) = PDict (relabel cfg 1)"
    and "assigned (build cfg s) = number_from 1 (config_stations cfg)"
    and "map fst (assigned (build cfg s)) = [1..int (length (config_stations cfg))]"
    and "\<forall>i. 1 \<le> i \<and> i \<le> int (length (config_stations cfg)) \<longrightarrow>
           stations_by_id (build cfg s) i = Some (config_stations cfg ! nat (i - 1))"
    and "build cfg (build cfg s) = build cfg s"
proof -
  note gs = get_stations_config[OF assms]
  show "stations (build cfg s) = PDict (relabel cfg 1)"
    by (simp add: build_def gs)
  show a: "assigned (build cfg s) = number_from 1 (config_stations cfg)"
    by (simp add: build_def gs assigned_def catalog_stations_relabel[OF assms])
  show "map fst (assigned (build cfg s)) = [1..int (length (config_stations cfg))]"
    unfolding a by (simp add: map_fst_number_from)
  show "\<forall>i. 1 \<le> i \<and> i \<le> int (length (config_stations cfg)) \<longrightarrow>
           stations_by_id (build cfg s) i = Some (config_stations cfg ! nat (i - 1))"
    by (simp add: build_def gs record_all_lookup)
  show "build cfg (build cfg s) = build cfg s"
    by (simp add: build_def gs record_all_twice)
qed

text \<open>
  C1. Building the catalog from a configuration mapping gives the stations, read in
  pre-order document order, the ids 1, 2, ..., N, where N is the number of stations: the
  ids are distinct and are exactly the integers from 1 to N, the id index maps each of
  them to the name and URL of its station, and building again from the same
  configuration gives the same tree and the same index.
\<close>

theorem station_ids_preorder:
  assumes "is_config cfg"
  shows "stations (build cfg s) = PDict (relabel cfg 1) \<and>
     assigned (build cfg s) = number_from 1 (config_stations cfg) \<and>
     map fst (assigned (build cfg s)) = [1..int (length (config_stations cfg))] \<and>
     distinct (map fst (assigned (build cfg s))) \<and>
     (\<forall>i. 1 \<le> i \<and> i \<le> int (length (config_stations cfg)) \<longrightarrow>
        stations_by_id (build cfg s) i = Some (config_stations cfg ! nat (i - 1))) \<and>
     build cfg (build cfg s) = build cfg s"
proof -
  have "distinct (map fst (assigned (build cfg s)))"
    unfolding station_ids_facts(3)[OF assms] by simp
  then show ?thesis
    using station_ids_facts[OF assms, of s] by blast
qed

theorem station_ids_preorder_witness:
  "is_config example_config \<and>
   assigned (build example_config init_state) =
     [(1, ''BBC'', ''BBC - auto:http://bbc/stream''),
      (2, ''Jazz FM'', ''Jazz - auto:http://jazz/stream''),
      (3, ''Paradise'', ''http://stream.radioparadise.com/mp3-192'')]"
proof -
  have h: "is_config example_config" by code_simp
  have c: "number_from 1 (config_stations example_config) =
     [(1, ''BBC'', ''BBC - auto:http://bbc/stream''),
      (2, ''Jazz FM'', ''Jazz - auto:http://jazz/stream''),
      (3, ''Paradise'', ''http://stream.radioparadise.com/mp3-192'')]"
    by (simp add: example_config_def)
  note t = station_ids_preorder [OF h, where s = init_state, THEN conjunct2, THEN conjunct1]
  show ?thesis using h t unfolding c by (rule conjI)
qed

subsection \<open>Requests and the catalog\<close>

lemma catalog_log [simp]: "catalog (s\<lparr>log := l\<rparr>) = catalog s"
  by (simp add: catalog_def)

lemma write_message_catalog [simp]: "catalog (snd (write_message doc h s)) = catalog s"
  by (simp add: write_message_def)

lemma send_error_catalog [simp]: "catalog (snd (send_error c s)) = catalog s"
  by (simp add: send_error_def)

lemma reply_with_dir_catalog [simp]: "catalog (snd (reply_with_dir lw stns a b s)) = catalog s"
  by (simp add: reply_with_dir_def split: result.splits)

lemma reply_with_mixed_list_catalog [simp]:
  "catalog (snd (reply_with_mixed_list lw nt h a b s)) = catalog s"
  by (simp add: reply_with_mixed_list_def split: result.splits)

lemma init_request_catalog [simp]: "catalog (snd (init_request lw rq stns s)) = catalog s"
  by (simp add: init_request_def split: result.splits)

lemma station_request_catalog [simp]: "catalog (snd (station_request nt rq s)) = catalog s"
  by (simp add: station_request_def split: result.splits prod.splits)

lemma category_request_catalog [simp]: "catalog (snd (category_request lw nt rq s)) = catalog s"
proof -
  have "\<And>a b h r s'. reply_with_mixed_list lw nt h a b s = (r, s') \<Longrightarrow> catalog s' = catalog s"
    using reply_with_mixed_list_catalog by (metis snd_conv)
  then show ?thesis
    by (auto simp: category_request_def split: option.splits result.splits prod.splits)
qed




subsection \<open>Configuration errors\<close>

text \<open>
  C8, as the code has it. When the configuration file does not exist, a request logs one
  error record and raises \<^verbatim>\<open>SystemExit(1)\<close>; the catalog is left as it was and no
  response is written.
\<close>

theorem missing_config_exits:
  "config ev = FileNotFound \<Longrightarrow>
   do_GET ev rq s =
     (Raise (SystemExit 1),
      s\<lparr>log := log s @ [Info_received (path rq), Error_config_not_found]\<rparr>)"
  by (simp add: do_GET_def get_stations_def)

theorem missing_config_exits_witness:
  "config (example_env\<lparr>config := FileNotFound\<rparr>) = FileNotFound \<and>
   fst (do_GET (example_env\<lparr>config := FileNotFound\<rparr>) (no_query ''/'') init_state)
     = Raise (SystemExit 1) \<and>
   log (snd (do_GET (example_env\<lparr>config := FileNotFound\<rparr>) (no_query ''/'') init_state))
     = [Info_received ''/'', Error_config_not_found]"
  using missing_config_exits [of "example_env\<lparr>config := FileNotFound\<rparr>" "no_query ''/''" init_state]
  by (simp add: init_state_def no_query_def)

text \<open>
  C8 as stated fails: a configuration that is not a mapping at top level raises
  \<^verbatim>\<open>AttributeError\<close> out of the walk, with no log record and no exit, after
  \<^verbatim>\<open>self.stations\<close> has been set to the value; a file that cannot be opened for another
  reason than being absent raises too.
\<close>

theorem malformed_config_counterexample:
  "fst (do_GET (example_env\<lparr>config := Loaded (PStr ''radio'')\<rparr>) (no_query ''/'') init_state)
     = Raise AttributeError \<and>
   log (snd (do_GET (example_env\<lparr>config := Loaded (PStr ''radio'')\<rparr>) (no_query ''/'') init_state))
     = [Info_received ''/''] \<and>
   stations (snd (do_GET (example_env\<lparr>config := Loaded (PStr ''radio'')\<rparr>) (no_query ''/'') init_state))
     = PStr ''radio'' \<and>
   fst (do_GET (example_env\<lparr>config := Unreadable\<rparr>) (no_query ''/'') init_state)
     = Raise OSError"
  by code_simp

subsection \<open>The redirect resolver\<close>

text \<open>
  C6, as the code has it. A URL that does not contain \<^verbatim>\<open>streamtheworld.com/\<close> is
  returned unchanged, whatever the network does; a URL that contains it is replaced by
  the redirect location when the request answers with one.
\<close>

theorem filter_url_pass_through:
  "(\<not> contains ''streamtheworld.com/'' url \<longrightarrow> filter_url nt url = Ok (Text url)) \<and>
   (contains ''streamtheworld.com/'' url \<and> nt url = Location newurl \<longrightarrow>
      filter_url nt url = Ok (Text newurl))"
  by (simp add: filter_url_def)

theorem filter_url_pass_through_witness:
  "\<not> contains ''streamtheworld.com/'' ''http://bbc/stream'' \<and>
   filter_url (\<lambda>url. Request_failed) ''http://bbc/stream'' = Ok (Text ''http://bbc/stream'') \<and>
   contains ''streamtheworld.com/'' ''http://a.streamtheworld.com/x'' \<and>
   filter_url (\<lambda>url. Location ''http://b/y'') ''http://a.streamtheworld.com/x''
     = Ok (Text ''http://b/y'')"
proof -
  have a: "\<not> contains ''streamtheworld.com/'' ''http://bbc/stream''" by code_simp
  have b: "contains ''streamtheworld.com/'' ''http://a.streamtheworld.com/x''" by code_simp
  show ?thesis
    using a b
      filter_url_pass_through [of "''http://bbc/stream''" "\<lambda>url. Request_failed"]
      filter_url_pass_through [of "''http://a.streamtheworld.com/x''" "\<lambda>url. Location ''http://b/y''" "''http://b/y''"]
    by simp
qed

text \<open>
  C6 as stated fails: when the request raises, \<^verbatim>\<open>filter_url\<close> raises, and when the
  response is no redirect it returns \<^verbatim>\<open>False\<close>, not the URL.
\<close>

theorem filter_url_counterexample:
  "filter_url (\<lambda>url. Request_failed)
     ''http://playerservices.streamtheworld.com/api/livestream-redirect/KINK.mp3''
     = Raise HTTPError \<and>
   filter_url (\<lambda>url. Not_redirect)
     ''http://playerservices.streamtheworld.com/api/livestream-redirect/KINK.mp3''
     = Ok PyFalse"
  by code_simp

subsection \<open>Unknown station ids\<close>

text \<open>
  C3. A station-detail request whose id is no id of the catalog should be answered with
  the default station. \<^verbatim>\<open>stations_by_id\<close> is created once, in \<^verbatim>\<open>__init__\<close>, and every build
  only adds to it: after the file has been edited down to one station, id 3 of the
  earlier build is no id of the catalog any more, and is still answered with its old
  station. An id that is not an integer raises \<^verbatim>\<open>ValueError\<close> before the lookup. On a
  fresh server an unknown id is answered with the default station.
\<close>

theorem stale_id_served:
  "map fst (assigned (snd (do_GET shrunk_env (station_query ''id=3'' (IntVal 3))
      (snd (do_GET example_env (no_query ''/'') init_state))))) = [1] \<and>
   fst (do_GET shrunk_env (station_query ''id=3'' (IntVal 3))
      (snd (do_GET example_env (no_query ''/'') init_state))) =
     Ok (Reply True (Element ''ListOfItems'' PyNone
       [Element ''Item'' PyNone
          [Element ''ItemType'' (Text ''Station'') [],
           Element ''StationName'' (Text ''Paradise'') [],
           Element ''StationId'' (Text ''3'') [],
           Element ''StationUrl'' (Text ''http://stream.radioparadise.com/mp3-192'') []]])) \<and>
   fst (do_GET example_env (station_query ''id=abc'' NotInt) init_state) = Raise ValueError \<and>
   rendered (fst (do_GET example_env (station_query ''id=7'' (IntVal 7)) init_state)) =
     Some [DEFAULTSTATION]"
  by code_simp

subsection \<open>Listings\<close>

lemma py_slice_page:
  assumes "1 \<le> a" "0 \<le> b"
  shows "py_slice xs (a - 1) (a - 1 + b) = take (nat b) (drop (nat (a - 1)) xs)"
proof -
  define i where "i = nat (a - 1)"
  define j where "j = nat b"
  have lo: "slice_bound (length xs) (a - 1) = min i (length xs)"
    using assms by (simp add: slice_bound_def i_def)
  have hi: "slice_bound (length xs) (a - 1 + b) = min (i + j) (length xs)"
    using assms by (simp add: slice_bound_def i_def j_def nat_add_distrib)
  have "take (min (i + j) (length xs) - min i (length xs)) (drop (min i (length xs)) xs)
        = take j (drop i xs)"
  proof (cases "i \<le> length xs")
    case True
    then have "min i (length xs) = i" by simp
    moreover have "take (min (i + j) (length xs) - i) (drop i xs) = take j (drop i xs)"
      by (cases "i + j \<le> length xs") (simp_all add: min_def)
    ultimately show ?thesis by simp
  next
    case False
    then show ?thesis by simp
  qed
  then show ?thesis by (simp add: py_slice_def lo hi i_def j_def)
qed

lemma py_slice_subset: "set (py_slice xs i j) \<subseteq> set xs"
  unfolding py_slice_def by (meson set_take_subset set_drop_subset subset_trans)

lemma items_of_SubElement:
  "items_of (SubElement doc e) = items_of doc @ (if tag_of e = ''Item'' then [e] else [])"
  by (cases doc) (simp add: items_of_def)

lemma dir_item_simps [simp]:
  "tag_of (dir_item k u c) = ''Item''" "item_title (dir_item k u c) = k"
  by (simp_all add: dir_item_def leaf_def)

lemma station_item_simps [simp]:
  "tag_of (station_item k t i) = ''Item''" "item_title (station_item k t i) = k"
  by (simp_all add: station_item_def leaf_def)

lemma dir_loop_items:
  "set ks \<subseteq> set (map fst d) \<Longrightarrow>
   \<exists>doc'. dir_loop (PDict d) ks doc = Ok doc' \<and>
     items_of doc' = items_of doc @
       map (\<lambda>k. dir_item k (category_url k) (str_int (int (len (the (map_of d k)))))) ks"
proof (induction ks arbitrary: doc)
  case Nil
  then show ?case by simp
next
  case (Cons k ks)
  then obtain v where v: "map_of d k = Some v"
    by (metis list.set_intros(1) map_of_eq_None_iff not_Some_eq set_map subsetD)
  from Cons.prems have "set ks \<subseteq> set (map fst d)" by simp
  from Cons.IH[OF this, of "add_dir doc k (category_url k) (str_int (int (len v)))"]
  show ?case using v by (auto simp: add_dir_def items_of_SubElement)
qed





lemma map_fst_relabel: "map fst (relabel cfg n) = map fst cfg"
  by (induction cfg n rule: relabel.induct) auto



lemma reply_with_dir_items:
  "\<exists>doc s'. reply_with_dir lw (PDict d) i j s = (Ok (Reply True doc), s') \<and>
     items_of doc =
       map (\<lambda>k. dir_item k (category_url k) (str_int (int (len (the (map_of d k))))))
         (py_slice (sort_key lw (map fst d)) i (i + j))"
proof -
  let ?ks = "py_slice (sort_key lw (map fst d)) i (i + j)"
  have "set ?ks \<subseteq> set (map fst d)"
    using py_slice_subset[of "sort_key lw (map fst d)" i "i + j"] by simp
  from dir_loop_items[OF this, of "SubElement create_root (leaf ''DirCount'' ''9'')"]
  obtain doc' where d: "dir_loop (PDict d) ?ks (SubElement create_root (leaf ''DirCount'' ''9'')) = Ok doc'"
    and i: "items_of doc' = items_of (SubElement create_root (leaf ''DirCount'' ''9'')) @
       map (\<lambda>k. dir_item k (category_url k) (str_int (int (len (the (map_of d k)))))) ?ks"
    by blast
  have e: "items_of (SubElement create_root (leaf ''DirCount'' ''9'')) = []"
    by (simp add: create_root_def leaf_def items_of_def)
  show ?thesis
    using d i e by (simp add: reply_with_dir_def write_message_def)
qed


lemma do_GET_config:
  assumes "config ev = Loaded (PDict cfg)" "is_config cfg"
  shows "do_GET ev rq s =
     (let s' = build cfg (s\<lparr>log := log s @ [Info_received (path rq)]\<rparr>) in
      if url_path rq = VTUNER_INITURL
        then init_request (str_lower ev) rq (PDict (relabel cfg 1)) s'
      else if startswith (path rq) VTUNER_STATURL then station_request (net ev) rq s'
      else if alias_path (path rq) \<or> startswith (path rq) VTUNER_INITURL
        then reply_with_dir (str_lower ev) (PDict (relabel cfg 1)) 0 8 s'
      else if startswith (path rq) ''/ycast?''
        then category_request (str_lower ev) (net ev) rq s'
      else send_error 404 s')"
  using assms
  by (simp add: do_GET_def get_stations_config build_def alias_path_def YCAST_LOCATION_def
      Let_def)







subsection \<open>Page parameters of a category listing\<close>




subsection \<open>A station at the top level\<close>

lemma relabel_station:
  "is_config cfg \<Longrightarrow> map_of cfg k = Some (PStr u) \<Longrightarrow>
   \<exists>i. map_of (relabel cfg n) k = Some (PTuple i u)"
  by (induction cfg n rule: relabel.induct) (auto split: if_splits)

lemma filter_eq_distinct: "distinct xs \<Longrightarrow> k \<in> set xs \<Longrightarrow> filter (\<lambda>x. x = k) xs = [k]"
  by (induction xs) (auto simp: filter_empty_conv)

lemma distinct_py_slice: "distinct xs \<Longrightarrow> distinct (py_slice xs i j)"
  by (simp add: py_slice_def)

lemma is_config_distinct: "is_config cfg \<Longrightarrow> distinct (map fst cfg)"
  by (induction cfg rule: is_config.induct) auto

lemma str_int_2: "str_int 2 = ''2''"
  by (simp add: str_int_def digits.simps digit_char_def)

text \<open>
  C10. When the configuration has a station directly at the top level, a root listing
  (or alias root listing) whose page contains its name shows exactly one item with that
  name, and it is a directory item with \<^verbatim>\<open>DirCount\<close> 2, the length of the stored tuple.
\<close>

theorem top_level_station_as_dir:
  assumes "config ev = Loaded (PDict cfg)" and "is_config cfg"
    and "map_of cfg k = Some (PStr u)"
    and "1 \<le> a" and "0 \<le> b"
    and "root_listing rq a b \<or> (alias_listing rq \<and> a = 1 \<and> b = 8)"
    and "k \<in> set (page (str_lower ev) (map fst cfg) a b)"
  shows "\<exists>doc. fst (do_GET ev rq s) = Ok (Reply True doc) \<and>
     filter (\<lambda>it. item_title it = k) (items_of doc) = [dir_item k (category_url k) ''2'']"
proof -
  let ?s' = "build cfg (s\<lparr>log := log s @ [Info_received (path rq)]\<rparr>)"
  let ?ks = "py_slice (sort_key (str_lower ev) (map fst cfg)) (a - 1) (a - 1 + b)"
  let ?f = "\<lambda>k. dir_item k (category_url k)
               (str_int (int (len (the (map_of (relabel cfg 1) k)))))"
  note dg = do_GET_config[OF assms(1,2), of rq s]
  have "do_GET ev rq s = reply_with_dir (str_lower ev) (PDict (relabel cfg 1)) (a - 1) b ?s'"
    using assms(6) by (auto simp: dg root_listing_def init_request_def alias_listing_def)
  with reply_with_dir_items[of "str_lower ev" "relabel cfg 1" "a - 1" b ?s']
  obtain doc where d: "fst (do_GET ev rq s) = Ok (Reply True doc)"
    and i: "items_of doc = map ?f ?ks"
    by (auto simp: map_fst_relabel)
  have pg: "?ks = page (str_lower ev) (map fst cfg) a b"
    using assms(4,5) by (simp add: py_slice_page page_def)
  have dk: "distinct ?ks"
    using is_config_distinct[OF assms(2)] by (simp add: distinct_py_slice)
  have "filter (\<lambda>it. item_title it = k) (map ?f ?ks) = map ?f (filter (\<lambda>x. x = k) ?ks)"
    by (simp add: filter_map comp_def)
  also have "\<dots> = [?f k]"
    using filter_eq_distinct[OF dk] assms(7) pg by simp
  also have "?f k = dir_item k (category_url k) ''2''"
    using relabel_station[OF assms(2,3), of 1] by (auto simp: str_int_2)
  finally show ?thesis using d i by auto
qed

theorem top_level_station_as_dir_witness:
  "config example_env = Loaded (PDict example_config) \<and> is_config example_config \<and>
   map_of example_config ''Paradise'' = Some (PStr ''http://stream.radioparadise.com/mp3-192'') \<and>
   alias_listing (no_query ''/'') \<and>
   ''Paradise'' \<in> set (page (str_lower example_env) (map fst example_config) 1 8) \<and>
   (\<exists>doc. fst (do_GET example_env (no_query ''/'') init_state) = Ok (Reply True doc) \<and>
      filter (\<lambda>it. item_title it = ''Paradise'') (items_of doc) =
        [Element ''Item'' PyNone
           [Element ''ItemType'' (Text ''Dir'') [],
            Element ''Title'' (Text ''Paradise'') [],
            Element ''UrlDir'' (Text ''http://radioyamaha.vtuner.com/ycast?category=Paradise'') [],
            Element ''DirCount'' (Text ''2'') []]])"
proof -
  have c: "config example_env = Loaded (PDict example_config)" by (simp add: example_env_def)
  have w: "is_config example_config" by code_simp
  have m: "map_of example_config ''Paradise'' = Some (PStr ''http://stream.radioparadise.com/mp3-192'')"
    by (simp add: example_config_def)
  have r: "alias_listing (no_query ''/'')" by code_simp
  have r': "root_listing (no_query ''/'') 1 8 \<or> (alias_listing (no_query ''/'') \<and> (1::int) = 1 \<and> (8::int) = 8)"
    using r by simp
  have p: "''Paradise'' \<in> set (page (str_lower example_env) (map fst example_config) 1 8)"
    by code_simp
  have q: "category_url ''Paradise'' = ''http://radioyamaha.vtuner.com/ycast?category=Paradise''"
    by code_simp
  have e: "dir_item ''Paradise'' (category_url ''Paradise'') ''2'' =
        Element ''Item'' PyNone
           [Element ''ItemType'' (Text ''Dir'') [],
            Element ''Title'' (Text ''Paradise'') [],
            Element ''UrlDir'' (Text ''http://radioyamaha.vtuner.com/ycast?category=Paradise'') [],
            Element ''DirCount'' (Text ''2'') []]"
    unfolding q by (simp add: dir_item_def leaf_def)
  have le1: "(1::int) \<le> 1" and le0: "(0::int) \<le> 8" by simp_all
  note t = top_level_station_as_dir [OF c w m le1 le0 r' p, where s = init_state]
  show ?thesis using c w m r p t unfolding e by (intro conjI)
qed

end
